theory Spec2Isabelle
  imports Main "HOL-Library.Sublist"
begin

section \<open>Python values, exceptions and the web framework's data\<close>

text \<open>
  The program is a Flask application (\<^verbatim>\<open>main.py\<close>) that relays requests to the Spotify
  Web API through the spotipy library. Token records, user records and search results
  are Python dictionaries built from JSON, so they are modelled by one type of
  JSON-like Python values. A dictionary is an association list read with
  \<^const>\<open>map_of\<close> (the first binding of a key is the one Python would hold).
\<close>

datatype pyval =
    PNone
  | PBool bool
  | PInt int
  | PStr string
  | PList "pyval list"
  | PDict "(string \<times> pyval) list"

text \<open>
  The exceptions the handlers can meet. All of them are subclasses of Python's
  \<^verbatim>\<open>Exception\<close>; \<open>SpotifyException\<close> carries the text \<^verbatim>\<open>str(e)\<close> renders, and
  \<open>OtherException\<close> stands for every other exception a library call raises (spotipy's
  OAuth error, a network error, ...).
\<close>

datatype exn =
    SpotifyException string
  | KeyError string
  | TypeError
  | AttributeError
  | OtherException string

text \<open>Python truthiness, as \<^verbatim>\<open>if x:\<close> and \<^verbatim>\<open>if not x:\<close> read it.\<close>

fun truthy :: "pyval \<Rightarrow> bool" where
  "truthy PNone = False"
| "truthy (PBool b) = b"
| "truthy (PInt i) = (i \<noteq> 0)"
| "truthy (PStr s) = (s \<noteq> [])"
| "truthy (PList xs) = (xs \<noteq> [])"
| "truthy (PDict kvs) = (kvs \<noteq> [])"

text \<open>
  \<^verbatim>\<open>obj['key']\<close> with a string key: a dictionary raises \<^verbatim>\<open>KeyError\<close> on a missing key,
  every other value raises \<^verbatim>\<open>TypeError\<close>.
\<close>

fun getitem :: "pyval \<Rightarrow> string \<Rightarrow> exn + pyval" where
  "getitem (PDict kvs) k = (case map_of kvs k of None \<Rightarrow> Inl (KeyError k) | Some v \<Rightarrow> Inr v)"
| "getitem _ k = Inl TypeError"

text \<open>\<^verbatim>\<open>obj.get('key')\<close>: only a dictionary has the method; a missing key gives \<^verbatim>\<open>None\<close>.\<close>

fun py_get :: "pyval \<Rightarrow> string \<Rightarrow> exn + pyval" where
  "py_get (PDict kvs) k = Inr (case map_of kvs k of None \<Rightarrow> PNone | Some v \<Rightarrow> v)"
| "py_get _ k = Inl AttributeError"

text \<open>
  \<^verbatim>\<open>for x in obj\<close>: a list yields its items, a dictionary its keys, a string its
  characters; the other values are not iterable.
\<close>

fun py_iter :: "pyval \<Rightarrow> exn + pyval list" where
  "py_iter (PList xs) = Inr xs"
| "py_iter (PDict kvs) = Inr (map (\<lambda>kv. PStr (fst kv)) kvs)"
| "py_iter (PStr s) = Inr (map (\<lambda>c. PStr [c]) s)"
| "py_iter _ = Inl TypeError"

text \<open>Sequencing of computations that may raise, and a list comprehension over them.\<close>

definition ebind :: "exn + 'a \<Rightarrow> ('a \<Rightarrow> exn + 'b) \<Rightarrow> exn + 'b" where
  "ebind m f = (case m of Inl e \<Rightarrow> Inl e | Inr x \<Rightarrow> f x)"

fun emap :: "('a \<Rightarrow> exn + 'b) \<Rightarrow> 'a list \<Rightarrow> exn + 'b list" where
  "emap f [] = Inr []"
| "emap f (x # xs) = ebind (f x) (\<lambda>y. ebind (emap f xs) (\<lambda>ys. Inr (y # ys)))"

text \<open>
  The Flask session: the program reads and writes the single key \<^verbatim>\<open>'token_info'\<close>
  (\<open>None\<close> when the key is absent) and the attribute \<^verbatim>\<open>session.permanent\<close>.
\<close>

record flask_session =
  token_info :: "pyval option"
  permanent :: bool

text \<open>\<^verbatim>\<open>session.get('token_info')\<close>\<close>

definition session_get_token_info :: "flask_session \<Rightarrow> pyval" where
  "session_get_token_info s = (case token_info s of None \<Rightarrow> PNone | Some v \<Rightarrow> v)"

text \<open>The request: its query string, as \<^verbatim>\<open>request.args\<close>.\<close>

record request =
  args :: "(string \<times> string) list"

text \<open>\<^verbatim>\<open>request.args.get(key)\<close>\<close>

definition args_get :: "request \<Rightarrow> string \<Rightarrow> string option" where
  "args_get req k = map_of (args req) k"

text \<open>
  What a view function returns: a string is an HTML page with status 200,
  \<^verbatim>\<open>jsonify(x)\<close> a JSON document with status 200, \<^verbatim>\<open>(jsonify(x), n)\<close> one with status
  \<open>n\<close>, and \<^verbatim>\<open>redirect(url)\<close> a 302 response to \<open>url\<close>.
\<close>

datatype body = Html string | Json pyval | Location string

record response =
  status :: nat
  body :: body

definition html :: "string \<Rightarrow> response" where
  "html s = \<lparr>status = 200, body = Html s\<rparr>"

definition jsonify :: "pyval \<Rightarrow> nat \<Rightarrow> response" where
  "jsonify v n = \<lparr>status = n, body = Json v\<rparr>"

definition redirect :: "string \<Rightarrow> response" where
  "redirect url = \<lparr>status = 302, body = Location url\<rparr>"

text \<open>
  \<^verbatim>\<open>url_for(endpoint)\<close> called with an endpoint and no values. The routes without
  parameters build their path; \<^verbatim>\<open>serve_frontend\<close> is registered on \<^verbatim>\<open>/static\<close> with the
  default \<^verbatim>\<open>path=""\<close> and builds that rule. Every other endpoint (one that needs
  values, as \<^verbatim>\<open>modify_playlist\<close>, or one that is not registered) raises Flask's
  \<^verbatim>\<open>BuildError\<close>. The only endpoint the program asks for is \<^verbatim>\<open>'create_playlist'\<close>.
\<close>

definition url_for :: "string \<Rightarrow> exn + string" where
  "url_for endpoint =
     (if endpoint = ''serve_frontend'' then Inr ''/static''
      else if endpoint = ''index'' then Inr ''/''
      else if endpoint = ''callback'' then Inr ''/callback''
      else if endpoint = ''logout'' then Inr ''/auth/logout''
      else if endpoint = ''auth_status'' then Inr ''/auth/status''
      else if endpoint = ''create_playlist'' then Inr ''/create_playlist''
      else if endpoint = ''get_user_playlists'' then Inr ''/api/user/playlists''
      else if endpoint = ''search_tracks'' then Inr ''/api/search''
      else Inl (OtherException ''BuildError''))"

section \<open>The collaborators outside the program\<close>

text \<open>
  \<^verbatim>\<open>Spotify(auth=token)\<close>: an API client bound to an access token. Constructing it
  makes no call.
\<close>

datatype client = Spotify pyval

text \<open>
  The calls that leave the process, in the order they are made: the two calls to the
  identity provider's token endpoint and the calls to the Web API.
\<close>

datatype call =
    RefreshAccessToken pyval
  | GetAccessToken string
  | CurrentUser client
  | PlaylistAddItems client string "string list"
  | PlaylistRemoveAllOccurrencesOfItems client string "string list"
  | CurrentUserPlaylists client int
  | Search client string string int

fun is_oauth_call :: "call \<Rightarrow> bool" where
  "is_oauth_call (RefreshAccessToken _) = True"
| "is_oauth_call (GetAccessToken _) = True"
| "is_oauth_call _ = False"

definition is_api_call :: "call \<Rightarrow> bool" where
  "is_api_call c = (\<not> is_oauth_call c)"


text \<open>
  spotipy and the services behind it are not part of the program: what each library
  function answers during one request is a parameter. \<open>is_token_expired\<close> is
  \<^verbatim>\<open>sp_oauth.is_token_expired\<close> at the time of the request; the others answer with a
  value or raise.
\<close>

record env =
  is_token_expired :: "pyval \<Rightarrow> exn + bool"
  refresh_access_token :: "pyval \<Rightarrow> exn + pyval"
  get_access_token :: "string \<Rightarrow> exn + pyval"
  current_user :: "client \<Rightarrow> exn + pyval"
  playlist_add_items :: "client \<Rightarrow> string \<Rightarrow> string list \<Rightarrow> exn + pyval"
  playlist_remove_all_occurrences_of_items :: "client \<Rightarrow> string \<Rightarrow> string list \<Rightarrow> exn + pyval"
  current_user_playlists :: "client \<Rightarrow> int \<Rightarrow> exn + pyval"
  search :: "client \<Rightarrow> string \<Rightarrow> string \<Rightarrow> int \<Rightarrow> exn + pyval"

text \<open>
  The state a request runs in: the session, and the log of outbound calls made so far.
\<close>

record state =
  session :: flask_session
  calls :: "call list"

definition record_call :: "call \<Rightarrow> state \<Rightarrow> state" where
  "record_call c st = st\<lparr>calls := calls st @ [c]\<rparr>"

text \<open>\<^verbatim>\<open>session['token_info'] = v\<close> and \<^verbatim>\<open>session.pop('token_info', None)\<close>\<close>

definition session_set_token_info :: "pyval \<Rightarrow> state \<Rightarrow> state" where
  "session_set_token_info v st = st\<lparr>session := (session st)\<lparr>token_info := Some v\<rparr>\<rparr>"

definition session_pop_token_info :: "state \<Rightarrow> state" where
  "session_pop_token_info st = st\<lparr>session := (session st)\<lparr>token_info := None\<rparr>\<rparr>"

definition session_set_permanent :: "bool \<Rightarrow> state \<Rightarrow> state" where
  "session_set_permanent b st = st\<lparr>session := (session st)\<lparr>permanent := b\<rparr>\<rparr>"

section \<open>The session authenticator\<close>

text \<open>
  \<^verbatim>\<open>return Spotify(auth=token_info['access_token'])\<close>, the last line of
  \<^verbatim>\<open>get_spotify_client\<close>: the subscript is outside the \<^verbatim>\<open>try\<close>, so its exception
  leaves the function.
\<close>

definition new_client :: "pyval \<Rightarrow> state \<Rightarrow> (exn + client option) \<times> state" where
  "new_client ti st =
     (case getitem ti ''access_token'' of
        Inl e \<Rightarrow> (Inl e, st)
      | Inr a \<Rightarrow> (Inr (Some (Spotify a)), st))"

text \<open>
  \<^verbatim>\<open>get_spotify_client()\<close>. The result is \<open>Inl e\<close> when exception \<open>e\<close> leaves the
  function, \<open>Inr None\<close> for Python's \<^verbatim>\<open>None\<close> and \<open>Inr (Some c)\<close> for a client. The
  \<^verbatim>\<open>try\<close> covers the subscript \<^verbatim>\<open>token_info['refresh_token']\<close>, the refresh call and
  the session write; the expiry check and the final subscript are outside it. The
  logger's output is not modelled.
\<close>

definition get_spotify_client :: "env \<Rightarrow> state \<Rightarrow> (exn + client option) \<times> state" where
  "get_spotify_client env st =
     (let ti = session_get_token_info (session st) in
      if \<not> truthy ti then (Inr None, st)
      else
        (case is_token_expired env ti of
           Inl e \<Rightarrow> (Inl e, st)
         | Inr expired \<Rightarrow>
             if expired then
               (case getitem ti ''refresh_token'' of
                  Inl e \<Rightarrow> (Inr None, session_pop_token_info st)
                | Inr rt \<Rightarrow>
                    (let st1 = record_call (RefreshAccessToken rt) st in
                     case refresh_access_token env rt of
                       Inl e \<Rightarrow> (Inr None, session_pop_token_info st1)
                     | Inr ti' \<Rightarrow> new_client ti' (session_set_token_info ti' st1)))
             else new_client ti st))"

section \<open>The route handlers\<close>

text \<open>
  A view function returns \<open>(Inr response, state)\<close>, or \<open>(Inl e, state)\<close> when exception
  \<open>e\<close> leaves it (Flask then answers through its error handler). In every handler the
  call of \<^verbatim>\<open>get_spotify_client()\<close> comes before the \<^verbatim>\<open>try\<close>.
\<close>

text \<open>\<^verbatim>\<open>if error:\<close> on the result of \<^verbatim>\<open>request.args.get\<close>: \<^verbatim>\<open>None\<close> and \<^verbatim>\<open>''\<close> are false.\<close>

fun arg_truthy :: "string option \<Rightarrow> bool" where
  "arg_truthy None = False"
| "arg_truthy (Some s) = (s \<noteq> [])"

text \<open>
  \<^verbatim>\<open>callback()\<close>, the route \<^verbatim>\<open>/callback\<close>. The whole body is inside
  \<^verbatim>\<open>try ... except Exception\<close>, so the failure of the exchange becomes a redirect.
\<close>

definition callback :: "env \<Rightarrow> request \<Rightarrow> state \<Rightarrow> (exn + response) \<times> state" where
  "callback env req st =
     (let code = args_get req ''code'';
          error = args_get req ''error''
      in
        if arg_truthy error then (Inr (redirect ''/?error=access_denied''), st)
        else if \<not> arg_truthy code then (Inr (redirect ''/?error=no_code''), st)
        else
          (case code of
             None \<Rightarrow> (Inr (redirect ''/?error=no_code''), st)
           | Some c \<Rightarrow>
               (let st1 = record_call (GetAccessToken c) st in
                case get_access_token env c of
                  Inl e \<Rightarrow> (Inr (redirect ''/?error=callback_failed''), st1)
                | Inr ti \<Rightarrow>
                    (let st2 = session_set_permanent True (session_set_token_info ti st1) in
                     case url_for ''create_playlist'' of
                       Inl e \<Rightarrow> (Inr (redirect ''/?error=callback_failed''), st2)
                     | Inr url \<Rightarrow> (Inr (redirect url), st2)))))"

text \<open>\<^verbatim>\<open>jsonify({"authenticated": False})\<close>, the last line of \<^verbatim>\<open>auth_status\<close>.\<close>

definition not_authenticated_status :: response where
  "not_authenticated_status = jsonify (PDict [(''authenticated'', PBool False)]) 200"

text \<open>The body of the \<^verbatim>\<open>try\<close> of \<^verbatim>\<open>auth_status\<close>, after the client is there.\<close>

definition auth_status_body :: "env \<Rightarrow> client \<Rightarrow> exn + response" where
  "auth_status_body env sp =
     ebind (current_user env sp) (\<lambda>user.
     ebind (getitem user ''id'') (\<lambda>uid.
     ebind (py_get user ''display_name'') (\<lambda>display_name.
     ebind (py_get user ''email'') (\<lambda>email.
       Inr (jsonify
         (PDict [(''authenticated'', PBool True),
                 (''user'', PDict [(''id'', uid),
                                   (''display_name'', display_name),
                                   (''email'', email)])]) 200)))))"

text \<open>
  \<^verbatim>\<open>auth_status()\<close>, the route \<^verbatim>\<open>/auth/status\<close>. Only \<^verbatim>\<open>SpotifyException\<close> is caught:
  the handler then drops \<^verbatim>\<open>token_info\<close> and falls through to the last line. Any other
  exception leaves the handler.
\<close>

definition auth_status :: "env \<Rightarrow> state \<Rightarrow> (exn + response) \<times> state" where
  "auth_status env st =
     (case get_spotify_client env st of
        (Inl e, st1) \<Rightarrow> (Inl e, st1)
      | (Inr None, st1) \<Rightarrow> (Inr not_authenticated_status, st1)
      | (Inr (Some sp), st1) \<Rightarrow>
          (let st2 = record_call (CurrentUser sp) st1 in
           case auth_status_body env sp of
             Inr r \<Rightarrow> (Inr r, st2)
           | Inl (SpotifyException m) \<Rightarrow> (Inr not_authenticated_status, session_pop_token_info st2)
           | Inl e \<Rightarrow> (Inl e, st2)))"

text \<open>The two \<^verbatim>\<open>except\<close> clauses of \<^verbatim>\<open>modify_playlist\<close>.\<close>

definition modify_playlist_except :: "exn + response \<Rightarrow> response" where
  "modify_playlist_except r =
     (case r of
        Inr resp \<Rightarrow> resp
      | Inl (SpotifyException m) \<Rightarrow>
          html (''<h1>Error modifying playlist</h1><p>'' @ m @ ''</p><p><a href='/'>Back to Home</a></p>'')
      | Inl e \<Rightarrow> html ''<h1>Unexpected error</h1><p><a href='/'>Back to Home</a></p>'')"

text \<open>
  \<^verbatim>\<open>modify_playlist(playlist_id, action, track_uri)\<close>, the route
  \<^verbatim>\<open>/modify_playlist/<playlist_id>/<action>/<path:track_uri>\<close>. Every answer of the
  \<^verbatim>\<open>try\<close> is a plain string, so its status is 200.
\<close>

definition modify_playlist :: "env \<Rightarrow> string \<Rightarrow> string \<Rightarrow> string \<Rightarrow> state \<Rightarrow> (exn + response) \<times> state" where
  "modify_playlist env playlist_id action track_uri st =
     (case get_spotify_client env st of
        (Inl e, st1) \<Rightarrow> (Inl e, st1)
      | (Inr None, st1) \<Rightarrow> (Inr (redirect ''/''), st1)
      | (Inr (Some sp), st1) \<Rightarrow>
          if action = ''add'' then
            (Inr (modify_playlist_except
               (ebind (playlist_add_items env sp playlist_id [track_uri]) (\<lambda>_.
                  Inr (html (''<h1>Success!</h1><p>Added '' @ track_uri @ ''</p><p><a href='/'>Back to Home</a></p>''))))),
             record_call (PlaylistAddItems sp playlist_id [track_uri]) st1)
          else if action = ''remove'' then
            (Inr (modify_playlist_except
               (ebind (playlist_remove_all_occurrences_of_items env sp playlist_id [track_uri]) (\<lambda>_.
                  Inr (html (''<h1>Success!</h1><p>Removed '' @ track_uri @ ''</p><p><a href='/'>Back to Home</a></p>''))))),
             record_call (PlaylistRemoveAllOccurrencesOfItems sp playlist_id [track_uri]) st1)
          else
            (Inr (html ''<h1>Invalid action</h1><p>Use 'add' or 'remove'</p><p><a href='/'>Back to Home</a></p>''), st1))"

text \<open>The two \<^verbatim>\<open>except\<close> clauses shared by the routes under \<^verbatim>\<open>/api\<close>.\<close>

definition api_except :: "exn + response \<Rightarrow> response" where
  "api_except r =
     (case r of
        Inr resp \<Rightarrow> resp
      | Inl (SpotifyException m) \<Rightarrow>
          jsonify (PDict [(''error'', PStr (''Spotify API error: '' @ m))]) 400
      | Inl e \<Rightarrow> jsonify (PDict [(''error'', PStr ''Internal server error'')]) 500)"

definition not_authenticated :: response where
  "not_authenticated = jsonify (PDict [(''error'', PStr ''Not authenticated'')]) 401"

text \<open>One element of the list comprehension of \<^verbatim>\<open>get_user_playlists\<close>.\<close>

definition playlist_view :: "pyval \<Rightarrow> exn + pyval" where
  "playlist_view playlist =
     ebind (getitem playlist ''id'') (\<lambda>pid.
     ebind (getitem playlist ''name'') (\<lambda>name.
     ebind (ebind (getitem playlist ''tracks'') (\<lambda>t. getitem t ''total'')) (\<lambda>total.
     ebind (getitem playlist ''public'') (\<lambda>public.
     ebind (ebind (getitem playlist ''external_urls'') (\<lambda>u. getitem u ''spotify'')) (\<lambda>url.
       Inr (PDict [(''id'', pid), (''name'', name), (''tracks'', total),
                   (''public'', public), (''url'', url)]))))))"

text \<open>\<^verbatim>\<open>get_user_playlists()\<close>, the route \<^verbatim>\<open>/api/user/playlists\<close>.\<close>

definition get_user_playlists :: "env \<Rightarrow> state \<Rightarrow> (exn + response) \<times> state" where
  "get_user_playlists env st =
     (case get_spotify_client env st of
        (Inl e, st1) \<Rightarrow> (Inl e, st1)
      | (Inr None, st1) \<Rightarrow> (Inr not_authenticated, st1)
      | (Inr (Some sp), st1) \<Rightarrow>
          (Inr (api_except
             (ebind (current_user_playlists env sp 50) (\<lambda>playlists.
              ebind (getitem playlists ''items'') (\<lambda>items.
              ebind (py_iter items) (\<lambda>xs.
              ebind (emap playlist_view xs) (\<lambda>vs.
                Inr (jsonify (PDict [(''playlists'', PList vs)]) 200))))))),
           record_call (CurrentUserPlaylists sp 50) st1))"

text \<open>One element of the list comprehension of \<^verbatim>\<open>search_tracks\<close>.\<close>

definition track_view :: "pyval \<Rightarrow> exn + pyval" where
  "track_view track =
     ebind (getitem track ''uri'') (\<lambda>uri.
     ebind (getitem track ''name'') (\<lambda>name.
     ebind (ebind (getitem track ''artists'') (\<lambda>artists.
            ebind (py_iter artists) (emap (\<lambda>artist. getitem artist ''name'')))) (\<lambda>names.
     ebind (ebind (getitem track ''album'') (\<lambda>album. getitem album ''name'')) (\<lambda>album_name.
     ebind (getitem track ''duration_ms'') (\<lambda>duration_ms.
     ebind (getitem track ''preview_url'') (\<lambda>preview_url.
       Inr (PDict [(''uri'', uri), (''name'', name), (''artists'', PList names),
                   (''album'', album_name), (''duration_ms'', duration_ms),
                   (''preview_url'', preview_url)])))))))"

text \<open>
  \<^verbatim>\<open>search_tracks()\<close>, the route \<^verbatim>\<open>/api/search\<close>. \<^verbatim>\<open>request.args.get('q', '')\<close> reads a
  missing parameter as the empty string.
\<close>

definition search_tracks :: "env \<Rightarrow> request \<Rightarrow> state \<Rightarrow> (exn + response) \<times> state" where
  "search_tracks env req st =
     (case get_spotify_client env st of
        (Inl e, st1) \<Rightarrow> (Inl e, st1)
      | (Inr None, st1) \<Rightarrow> (Inr not_authenticated, st1)
      | (Inr (Some sp), st1) \<Rightarrow>
          (let query = (case args_get req ''q'' of None \<Rightarrow> [] | Some q \<Rightarrow> q) in
           if query = [] then
             (Inr (jsonify (PDict [(''error'', PStr ''No search query provided'')]) 400), st1)
           else
             (Inr (api_except
                (ebind (search env sp query ''track'' 20) (\<lambda>results.
                 ebind (ebind (getitem results ''tracks'') (\<lambda>t. getitem t ''items'')) (\<lambda>items.
                 ebind (py_iter items) (\<lambda>xs.
                 ebind (emap track_view xs) (\<lambda>tracks.
                   Inr (jsonify (PDict [(''tracks'', PList tracks)]) 200))))))),
              record_call (Search sp query ''track'' 20) st1)))"

section \<open>Token records and sample inputs\<close>

text \<open>
  A token record as the data model describes it holds at least an access token, a refresh
  token and an expiry time. The program itself reads the first two; the third is read by
  the library's expiry check.
\<close>

definition has_key :: "pyval \<Rightarrow> string \<Rightarrow> bool" where
  "has_key v k = (case getitem v k of Inl e \<Rightarrow> False | Inr x \<Rightarrow> True)"

definition well_formed_token :: "pyval \<Rightarrow> bool" where
  "well_formed_token ti =
     (has_key ti ''access_token'' \<and> has_key ti ''refresh_token'' \<and> has_key ti ''expires_at'')"

text \<open>Concrete sessions, requests and library behaviours on which the theorems are exercised.\<close>

definition old_token :: pyval where
  "old_token =
     PDict [(''access_token'', PStr ''AT1''), (''refresh_token'', PStr ''RT1''),
            (''expires_at'', PInt 1700000000), (''scope'', PStr ''user-read-private'')]"

definition new_token :: pyval where
  "new_token =
     PDict [(''access_token'', PStr ''AT2''), (''refresh_token'', PStr ''RT1''),
            (''expires_at'', PInt 1700003600), (''scope'', PStr ''user-read-private'')]"

definition empty_state :: state where
  "empty_state = \<lparr>session = \<lparr>token_info = None, permanent = False\<rparr>, calls = []\<rparr>"

definition logged_in :: state where
  "logged_in = \<lparr>session = \<lparr>token_info = Some old_token, permanent = True\<rparr>, calls = []\<rparr>"

text \<open>The stored token has expired and every call to the outside fails.\<close>

definition failing_env :: env where
  "failing_env =
     \<lparr>is_token_expired = (\<lambda>ti. Inr True),
      refresh_access_token = (\<lambda>rt. Inl (OtherException ''invalid_grant'')),
      get_access_token = (\<lambda>c. Inl (OtherException ''invalid_grant'')),
      current_user = (\<lambda>c. Inl (SpotifyException ''rate limited'')),
      playlist_add_items = (\<lambda>c p ts. Inl (SpotifyException ''rate limited'')),
      playlist_remove_all_occurrences_of_items = (\<lambda>c p ts. Inl (SpotifyException ''rate limited'')),
      current_user_playlists = (\<lambda>c n. Inl (SpotifyException ''rate limited'')),
      search = (\<lambda>c q t n. Inl (SpotifyException ''rate limited''))\<rparr>"

text \<open>The stored token has expired and the identity provider answers with a new one.\<close>

definition refreshing_env :: env where
  "refreshing_env =
     failing_env\<lparr>refresh_access_token := (\<lambda>rt. Inr new_token),
                 get_access_token := (\<lambda>c. Inr new_token)\<rparr>"

text \<open>The stored token is still valid; the Web API is rate limiting.\<close>

definition valid_env :: env where
  "valid_env = failing_env\<lparr>is_token_expired := (\<lambda>ti. Inr False)\<rparr>"

text \<open>
  The stored token has expired and the identity provider answers the refresh with a
  record that holds no access token.
\<close>

definition bad_token :: pyval where
  "bad_token = PDict [(''token_type'', PStr ''Bearer'')]"

definition bad_refresh_env :: env where
  "bad_refresh_env = failing_env\<lparr>refresh_access_token := (\<lambda>rt. Inr bad_token)\<rparr>"

text \<open>Requests: \<^verbatim>\<open>?error=access_denied\<close>, \<^verbatim>\<open>?code=ABC123\<close>, \<^verbatim>\<open>?error=&code=ABC123\<close>, \<^verbatim>\<open>?code=\<close>, no query string, and \<^verbatim>\<open>?q=\<close>.\<close>

definition declined_request :: request where
  "declined_request = \<lparr>args = [(''error'', ''access_denied'')]\<rparr>"

definition login_request :: request where
  "login_request = \<lparr>args = [(''code'', ''ABC123'')]\<rparr>"

definition blank_error_request :: request where
  "blank_error_request = \<lparr>args = [(''error'', []), (''code'', ''ABC123'')]\<rparr>"

definition blank_code_request :: request where
  "blank_code_request = \<lparr>args = [(''code'', [])]\<rparr>"

definition bare_request :: request where
  "bare_request = \<lparr>args = []\<rparr>"

definition blank_query_request :: request where
  "blank_query_request = \<lparr>args = [(''q'', [])]\<rparr>"

section \<open>Properties of the session authenticator\<close>

lemma getitem_truthy: "getitem ti k = Inr v \<Longrightarrow> truthy ti"
  by (cases ti) (auto split: option.splits)

lemma get_spotify_client_calls:
  "calls (snd (get_spotify_client env st)) = calls st
   \<or> (\<exists>rt. calls (snd (get_spotify_client env st)) = calls st @ [RefreshAccessToken rt])"
  by (auto simp: get_spotify_client_def new_client_def record_call_def session_pop_token_info_def
      session_set_token_info_def Let_def split: sum.splits)

lemma get_spotify_client_api_calls:
  "filter is_api_call (calls (snd (get_spotify_client env st))) = filter is_api_call (calls st)"
  using get_spotify_client_calls [of env st] by (auto simp: is_api_call_def)

text \<open>
  Claim C6. For every session with no \<open>token_info\<close> entry (an empty session
  included), \<open>get_spotify_client\<close> returns \<open>None\<close> and leaves the session, and the log
  of outbound calls, as they were.
\<close>

theorem get_spotify_client_no_token:
  assumes "token_info (session st) = None"
  shows "get_spotify_client env st = (Inr None, st)"
  using assms by (simp add: get_spotify_client_def session_get_token_info_def)

theorem get_spotify_client_no_token_witness:
  "token_info (session empty_state) = None
   \<and> get_spotify_client failing_env empty_state = (Inr None, empty_state)"
  using get_spotify_client_no_token [of empty_state failing_env]
  by (simp add: empty_state_def)



text \<open>
  Claim C2. Let the session hold a token record with access token \<open>a\<close> that the expiry
  check reports as not expired. Then \<open>get_spotify_client\<close> returns the client bound to
  \<open>a\<close> and changes nothing: the session is the same and the log of outbound calls has
  gained no entry, so no refresh was made. A second call right after the first (the token
  still not expired) finds the same session and leaves it the same again.
\<close>

theorem get_spotify_client_valid:
  assumes "token_info (session st) = Some ti"
    and "is_token_expired env ti = Inr False"
    and "is_token_expired env' ti = Inr False"
    and "getitem ti ''access_token'' = Inr a"
  shows "get_spotify_client env st = (Inr (Some (Spotify a)), st)
       \<and> get_spotify_client env' (snd (get_spotify_client env st)) = (Inr (Some (Spotify a)), st)"
  using assms getitem_truthy [OF assms(4)]
  by (auto simp: get_spotify_client_def new_client_def session_get_token_info_def Let_def)

theorem get_spotify_client_valid_witness:
  "get_spotify_client valid_env logged_in = (Inr (Some (Spotify (PStr ''AT1''))), logged_in)
   \<and> get_spotify_client valid_env (snd (get_spotify_client valid_env logged_in))
       = (Inr (Some (Spotify (PStr ''AT1''))), logged_in)"
proof -
  have tok: "token_info (session logged_in) = Some old_token"
    by (simp add: logged_in_def)
  have ex: "is_token_expired valid_env old_token = Inr False"
    by (simp add: valid_env_def failing_env_def)
  have at: "getitem old_token ''access_token'' = Inr (PStr ''AT1'')"
    by (simp add: old_token_def)
  show ?thesis
    by (rule get_spotify_client_valid [OF tok ex ex at])
qed

text \<open>
  Claim C5, as the program has it. Let the session hold a well-formed token record. Every
  exception raised by the refresh call is absorbed: the result is \<open>None\<close>. An exception
  leaves \<open>get_spotify_client\<close> in exactly two cases, the two operations outside the
  \<^verbatim>\<open>try\<close>: the expiry check itself raises, or the token has expired and the refresh
  answers with a record that holds no access token.
\<close>

theorem get_spotify_client_raises_iff:
  assumes "token_info (session st) = Some ti"
    and "well_formed_token ti"
  shows "((\<exists>e. fst (get_spotify_client env st) = Inl e) \<longleftrightarrow>
            ((\<exists>e. is_token_expired env ti = Inl e)
             \<or> (\<exists>rt ti'. is_token_expired env ti = Inr True
                   \<and> getitem ti ''refresh_token'' = Inr rt
                   \<and> refresh_access_token env rt = Inr ti'
                   \<and> \<not> has_key ti' ''access_token'')))
       \<and> (\<forall>rt e. is_token_expired env ti = Inr True
              \<and> getitem ti ''refresh_token'' = Inr rt
              \<and> refresh_access_token env rt = Inl e
            \<longrightarrow> fst (get_spotify_client env st) = Inr None)"
proof -
  from assms(2) obtain a rt where a: "getitem ti ''access_token'' = Inr a"
    and rt: "getitem ti ''refresh_token'' = Inr rt"
    by (auto simp: well_formed_token_def has_key_def split: sum.splits)
  have t: "truthy ti" by (rule getitem_truthy [OF a])
  show ?thesis
  proof (cases "is_token_expired env ti")
    case (Inl e)
    with assms(1) t show ?thesis
      by (simp add: get_spotify_client_def session_get_token_info_def)
  next
    case chk: (Inr expired)
    show ?thesis
    proof (cases expired)
      case False
      with chk assms(1) a t show ?thesis
        by (simp add: get_spotify_client_def new_client_def session_get_token_info_def)
    next
      case True
      show ?thesis
      proof (cases "refresh_access_token env rt")
        case (Inl e)
        with True chk assms(1) rt t show ?thesis
          by (simp add: get_spotify_client_def session_get_token_info_def Let_def)
      next
        case (Inr ti')
        with True chk assms(1) rt t show ?thesis
          by (cases "getitem ti' ''access_token''")
             (simp_all add: get_spotify_client_def new_client_def session_get_token_info_def
                Let_def has_key_def)
      qed
    qed
  qed
qed

theorem get_spotify_client_raises_iff_witness:
  "well_formed_token old_token
   \<and> fst (get_spotify_client failing_env logged_in) = Inr None
   \<and> \<not> (\<exists>e. fst (get_spotify_client refreshing_env logged_in) = Inl e)
   \<and> \<not> (\<exists>e. fst (get_spotify_client valid_env logged_in) = Inl e)"
proof -
  have tok: "token_info (session logged_in) = Some old_token"
    by (simp add: logged_in_def)
  have wf: "well_formed_token old_token"
    by (simp add: well_formed_token_def has_key_def old_token_def)
  have rt: "getitem old_token ''refresh_token'' = Inr (PStr ''RT1'')"
    by (simp add: old_token_def)
  have e1: "is_token_expired failing_env old_token = Inr True"
    by (simp add: failing_env_def)
  have ko: "refresh_access_token failing_env (PStr ''RT1'') = Inl (OtherException ''invalid_grant'')"
    by (simp add: failing_env_def)
  have r2: "\<not> ((\<exists>e. is_token_expired refreshing_env old_token = Inl e)
             \<or> (\<exists>rt ti'. is_token_expired refreshing_env old_token = Inr True
                   \<and> getitem old_token ''refresh_token'' = Inr rt
                   \<and> refresh_access_token refreshing_env rt = Inr ti'
                   \<and> \<not> has_key ti' ''access_token''))"
    by (auto simp: refreshing_env_def failing_env_def has_key_def new_token_def)
  have r3: "\<not> ((\<exists>e. is_token_expired valid_env old_token = Inl e)
             \<or> (\<exists>rt ti'. is_token_expired valid_env old_token = Inr True
                   \<and> getitem old_token ''refresh_token'' = Inr rt
                   \<and> refresh_access_token valid_env rt = Inr ti'
                   \<and> \<not> has_key ti' ''access_token''))"
    by (simp add: valid_env_def failing_env_def)
  from get_spotify_client_raises_iff [OF tok wf, of failing_env] e1 rt ko
  have 1: "fst (get_spotify_client failing_env logged_in) = Inr None"
    by blast
  from get_spotify_client_raises_iff [OF tok wf, of refreshing_env] r2
  have 2: "\<not> (\<exists>e. fst (get_spotify_client refreshing_env logged_in) = Inl e)"
    by blast
  from get_spotify_client_raises_iff [OF tok wf, of valid_env] r3
  have 3: "\<not> (\<exists>e. fst (get_spotify_client valid_env logged_in) = Inl e)"
    by blast
  from wf 1 2 3 show ?thesis
    by blast
qed

text \<open>
  Claim C5 as the specification words it fails: the stored token record is well formed
  and has expired, the refresh call returns without raising, but its record holds no
  access token. The subscript \<^verbatim>\<open>token_info['access_token']\<close> of the last line, outside
  the \<^verbatim>\<open>try\<close>, raises \<^verbatim>\<open>KeyError\<close>, which leaves the function; the session by then
  holds the record without an access token.
\<close>

theorem get_spotify_client_raises_counterexample:
  "token_info (session logged_in) = Some old_token
   \<and> well_formed_token old_token
   \<and> get_spotify_client bad_refresh_env logged_in =
       (Inl (KeyError ''access_token''),
        \<lparr>session = \<lparr>token_info = Some bad_token, permanent = True\<rparr>,
         calls = [RefreshAccessToken (PStr ''RT1'')]\<rparr>)"
  by (simp add: get_spotify_client_def new_client_def session_get_token_info_def logged_in_def
      old_token_def bad_token_def bad_refresh_env_def failing_env_def well_formed_token_def
      has_key_def record_call_def session_set_token_info_def)

section \<open>Properties of the route handlers\<close>

text \<open>
  Claim C4, as the program has it. For every request to \<^verbatim>\<open>/callback\<close>:
  if the \<open>error\<close> parameter is present and not empty, the answer is a redirect to
  \<^verbatim>\<open>/?error=access_denied\<close> and nothing else happens (no exchange, the session is
  untouched), whatever \<open>code\<close> is;
  otherwise, if \<open>code\<close> is absent or empty, the answer is a redirect to
  \<^verbatim>\<open>/?error=no_code\<close>, again with nothing else done;
  otherwise the code is exchanged exactly once: when the exchange answers with a token
  record, that record is stored under \<open>token_info\<close>, the session is marked permanent and
  the answer is a redirect to \<^verbatim>\<open>/create_playlist\<close>; when the exchange raises, the answer
  is a redirect to \<^verbatim>\<open>/?error=callback_failed\<close> and the session is untouched.
\<close>

theorem callback_outcomes:
  "(\<forall>e. args_get req ''error'' = Some e \<and> e \<noteq> [] \<longrightarrow>
      callback env req st = (Inr (redirect ''/?error=access_denied''), st))
   \<and> ((args_get req ''error'' = None \<or> args_get req ''error'' = Some [])
        \<and> (args_get req ''code'' = None \<or> args_get req ''code'' = Some []) \<longrightarrow>
      callback env req st = (Inr (redirect ''/?error=no_code''), st))
   \<and> (\<forall>c ti. (args_get req ''error'' = None \<or> args_get req ''error'' = Some [])
        \<and> args_get req ''code'' = Some c \<and> c \<noteq> [] \<and> get_access_token env c = Inr ti \<longrightarrow>
      callback env req st =
        (Inr (redirect ''/create_playlist''),
         st\<lparr>session := (session st)\<lparr>token_info := Some ti, permanent := True\<rparr>,
            calls := calls st @ [GetAccessToken c]\<rparr>))
   \<and> (\<forall>c e. (args_get req ''error'' = None \<or> args_get req ''error'' = Some [])
        \<and> args_get req ''code'' = Some c \<and> c \<noteq> [] \<and> get_access_token env c = Inl e \<longrightarrow>
      callback env req st =
        (Inr (redirect ''/?error=callback_failed''),
         st\<lparr>calls := calls st @ [GetAccessToken c]\<rparr>))"
  by (auto simp: callback_def Let_def record_call_def session_set_token_info_def
      session_set_permanent_def url_for_def)

theorem callback_outcomes_witness:
  "callback failing_env declined_request empty_state =
     (Inr (redirect ''/?error=access_denied''), empty_state)
   \<and> callback failing_env blank_code_request empty_state =
     (Inr (redirect ''/?error=no_code''), empty_state)
   \<and> callback refreshing_env login_request empty_state =
     (Inr (redirect ''/create_playlist''),
      \<lparr>session = \<lparr>token_info = Some new_token, permanent = True\<rparr>,
       calls = [GetAccessToken ''ABC123'']\<rparr>)
   \<and> callback failing_env login_request empty_state =
     (Inr (redirect ''/?error=callback_failed''),
      \<lparr>session = \<lparr>token_info = None, permanent = False\<rparr>,
       calls = [GetAccessToken ''ABC123'']\<rparr>)"
proof -
  have a: "args_get declined_request ''error'' = Some ''access_denied'' \<and> ''access_denied'' \<noteq> []"
    by (simp add: args_get_def declined_request_def)
  have b: "(args_get blank_code_request ''error'' = None \<or> args_get blank_code_request ''error'' = Some [])
           \<and> (args_get blank_code_request ''code'' = None \<or> args_get blank_code_request ''code'' = Some [])"
    by (simp add: args_get_def blank_code_request_def)
  have c: "(args_get login_request ''error'' = None \<or> args_get login_request ''error'' = Some [])
           \<and> args_get login_request ''code'' = Some ''ABC123'' \<and> ''ABC123'' \<noteq> []
           \<and> get_access_token refreshing_env ''ABC123'' = Inr new_token"
    by (simp add: args_get_def login_request_def refreshing_env_def failing_env_def)
  have d: "(args_get login_request ''error'' = None \<or> args_get login_request ''error'' = Some [])
           \<and> args_get login_request ''code'' = Some ''ABC123'' \<and> ''ABC123'' \<noteq> []
           \<and> get_access_token failing_env ''ABC123'' = Inl (OtherException ''invalid_grant'')"
    by (simp add: args_get_def login_request_def failing_env_def)
  from a callback_outcomes [of declined_request failing_env empty_state]
  have 1: "callback failing_env declined_request empty_state =
     (Inr (redirect ''/?error=access_denied''), empty_state)"
    by blast
  from b callback_outcomes [of blank_code_request failing_env empty_state]
  have 2: "callback failing_env blank_code_request empty_state =
     (Inr (redirect ''/?error=no_code''), empty_state)"
    by blast
  from c callback_outcomes [of login_request refreshing_env empty_state]
  have 3: "callback refreshing_env login_request empty_state =
     (Inr (redirect ''/create_playlist''),
      empty_state\<lparr>session := (session empty_state)\<lparr>token_info := Some new_token, permanent := True\<rparr>,
        calls := calls empty_state @ [GetAccessToken ''ABC123'']\<rparr>)"
    by blast
  from d callback_outcomes [of login_request failing_env empty_state]
  have 4: "callback failing_env login_request empty_state =
     (Inr (redirect ''/?error=callback_failed''),
      empty_state\<lparr>calls := calls empty_state @ [GetAccessToken ''ABC123'']\<rparr>)"
    by blast
  from 1 2 3 4 show ?thesis
    by (simp add: empty_state_def)
qed

text \<open>
  Claim C4 as the specification words it fails on \<^verbatim>\<open>/callback?error=&code=ABC123\<close>: the
  \<open>error\<close> parameter is present (with an empty value), yet the handler does not redirect
  to \<^verbatim>\<open>/?error=access_denied\<close>; it exchanges the code and logs the user in.
\<close>

theorem callback_blank_error_counterexample:
  "args_get blank_error_request ''error'' = Some []
   \<and> fst (callback refreshing_env blank_error_request empty_state)
       \<noteq> Inr (redirect ''/?error=access_denied'')
   \<and> callback refreshing_env blank_error_request empty_state =
       (Inr (redirect ''/create_playlist''),
        \<lparr>session = \<lparr>token_info = Some new_token, permanent = True\<rparr>,
         calls = [GetAccessToken ''ABC123'']\<rparr>)"
  by (simp add: callback_def args_get_def blank_error_request_def refreshing_env_def
      failing_env_def empty_state_def record_call_def session_set_token_info_def
      session_set_permanent_def url_for_def redirect_def)

text \<open>
  Claim C7. Whenever \<open>get_spotify_client\<close> returns \<open>None\<close>, both
  \<^verbatim>\<open>/api/user/playlists\<close> and \<^verbatim>\<open>/api/search\<close> answer with status 401 and the JSON body
  \<^verbatim>\<open>{"error": "Not authenticated"}\<close>; the handler does nothing after the authenticator
  returns, and the log holds no call to the Web API that was not there before.
\<close>

theorem api_not_authenticated:
  assumes "fst (get_spotify_client env st) = Inr None"
  shows "get_user_playlists env st =
           (Inr \<lparr>status = 401, body = Json (PDict [(''error'', PStr ''Not authenticated'')])\<rparr>,
            snd (get_spotify_client env st))
       \<and> search_tracks env req st =
           (Inr \<lparr>status = 401, body = Json (PDict [(''error'', PStr ''Not authenticated'')])\<rparr>,
            snd (get_spotify_client env st))
       \<and> filter is_api_call (calls (snd (get_user_playlists env st))) = filter is_api_call (calls st)
       \<and> filter is_api_call (calls (snd (search_tracks env req st))) = filter is_api_call (calls st)"
proof -
  obtain st1 where g: "get_spotify_client env st = (Inr None, st1)"
    using assms by (cases "get_spotify_client env st") simp
  have p: "get_user_playlists env st =
      (Inr \<lparr>status = 401, body = Json (PDict [(''error'', PStr ''Not authenticated'')])\<rparr>, st1)"
    by (simp add: get_user_playlists_def g not_authenticated_def jsonify_def)
  have q: "search_tracks env req st =
      (Inr \<lparr>status = 401, body = Json (PDict [(''error'', PStr ''Not authenticated'')])\<rparr>, st1)"
    by (simp add: search_tracks_def g not_authenticated_def jsonify_def)
  have c: "filter is_api_call (calls st1) = filter is_api_call (calls st)"
    using get_spotify_client_api_calls [of env st] by (simp add: g)
  from p q c show ?thesis by (simp add: g)
qed

theorem api_not_authenticated_witness:
  "fst (get_spotify_client failing_env logged_in) = Inr None
   \<and> get_user_playlists failing_env logged_in =
       (Inr \<lparr>status = 401, body = Json (PDict [(''error'', PStr ''Not authenticated'')])\<rparr>,
        snd (get_spotify_client failing_env logged_in))
   \<and> search_tracks failing_env bare_request logged_in =
       (Inr \<lparr>status = 401, body = Json (PDict [(''error'', PStr ''Not authenticated'')])\<rparr>,
        snd (get_spotify_client failing_env logged_in))
   \<and> filter is_api_call (calls (snd (get_user_playlists failing_env logged_in))) = []
   \<and> filter is_api_call (calls (snd (search_tracks failing_env bare_request logged_in))) = []"
proof -
  have h: "fst (get_spotify_client failing_env logged_in) = Inr None"
    by (simp add: get_spotify_client_def session_get_token_info_def logged_in_def old_token_def
        failing_env_def record_call_def session_pop_token_info_def)
  have n: "filter is_api_call (calls logged_in) = []"
    by (simp add: logged_in_def)
  note t = api_not_authenticated [OF h, of bare_request, unfolded n]
  from h t show ?thesis
    by blast
qed

text \<open>
  Claim C8. When \<open>get_spotify_client\<close> returns a client and the parameter \<open>q\<close> of a
  request to \<^verbatim>\<open>/api/search\<close> is missing or empty, the answer has status 400 and the JSON
  body \<^verbatim>\<open>{"error": "No search query provided"}\<close>; the handler does nothing after the
  authenticator returns, and the log holds no call to the Web API that was not there
  before.
\<close>

theorem search_tracks_no_query:
  assumes "fst (get_spotify_client env st) = Inr (Some sp)"
    and "args_get req ''q'' = None \<or> args_get req ''q'' = Some []"
  shows "search_tracks env req st =
           (Inr \<lparr>status = 400, body = Json (PDict [(''error'', PStr ''No search query provided'')])\<rparr>,
            snd (get_spotify_client env st))
       \<and> filter is_api_call (calls (snd (search_tracks env req st))) = filter is_api_call (calls st)"
proof -
  obtain st1 where g: "get_spotify_client env st = (Inr (Some sp), st1)"
    using assms(1) by (cases "get_spotify_client env st") simp
  have q: "search_tracks env req st =
      (Inr \<lparr>status = 400, body = Json (PDict [(''error'', PStr ''No search query provided'')])\<rparr>, st1)"
    using assms(2) by (auto simp: search_tracks_def g jsonify_def)
  have c: "filter is_api_call (calls st1) = filter is_api_call (calls st)"
    using get_spotify_client_api_calls [of env st] by (simp add: g)
  from q c show ?thesis by (simp add: g)
qed

theorem search_tracks_no_query_witness:
  "fst (get_spotify_client valid_env logged_in) = Inr (Some (Spotify (PStr ''AT1'')))
   \<and> search_tracks valid_env blank_query_request logged_in =
       (Inr \<lparr>status = 400, body = Json (PDict [(''error'', PStr ''No search query provided'')])\<rparr>,
        snd (get_spotify_client valid_env logged_in))
   \<and> search_tracks valid_env bare_request logged_in =
       (Inr \<lparr>status = 400, body = Json (PDict [(''error'', PStr ''No search query provided'')])\<rparr>,
        snd (get_spotify_client valid_env logged_in))"
proof -
  have h: "fst (get_spotify_client valid_env logged_in) = Inr (Some (Spotify (PStr ''AT1'')))"
    by (simp add: get_spotify_client_def new_client_def session_get_token_info_def logged_in_def
        old_token_def valid_env_def failing_env_def)
  have q1: "args_get blank_query_request ''q'' = None \<or> args_get blank_query_request ''q'' = Some []"
    by (simp add: args_get_def blank_query_request_def)
  have q2: "args_get bare_request ''q'' = None \<or> args_get bare_request ''q'' = Some []"
    by (simp add: args_get_def bare_request_def)
  from search_tracks_no_query [OF h q1] search_tracks_no_query [OF h q2] h show ?thesis
    by simp
qed

text \<open>
  Claim C9. When \<open>get_spotify_client\<close> returns a client and the action of a request to
  \<^verbatim>\<open>/modify_playlist/<playlist_id>/<action>/<track_uri>\<close> is neither \<open>add\<close> nor
  \<open>remove\<close>, the answer is an HTML page with status 200 that contains the text
  \<open>Invalid action\<close>; the handler does nothing after the authenticator returns, and the
  log holds no call to the Web API that was not there before.
\<close>

theorem modify_playlist_invalid_action:
  assumes "fst (get_spotify_client env st) = Inr (Some sp)"
    and "action \<noteq> ''add''"
    and "action \<noteq> ''remove''"
  shows "\<exists>page. modify_playlist env playlist_id action track_uri st =
           (Inr \<lparr>status = 200, body = Html page\<rparr>, snd (get_spotify_client env st))
         \<and> sublist ''Invalid action'' page
         \<and> filter is_api_call (calls (snd (modify_playlist env playlist_id action track_uri st)))
             = filter is_api_call (calls st)"
proof -
  obtain st1 where g: "get_spotify_client env st = (Inr (Some sp), st1)"
    using assms(1) by (cases "get_spotify_client env st") simp
  let ?page = "''<h1>Invalid action</h1><p>Use 'add' or 'remove'</p><p><a href='/'>Back to Home</a></p>''"
  have m: "modify_playlist env playlist_id action track_uri st =
      (Inr \<lparr>status = 200, body = Html ?page\<rparr>, st1)"
    using assms(2,3) by (simp add: modify_playlist_def g html_def)
  have "?page = ''<h1>'' @ ''Invalid action'' @ ''</h1><p>Use 'add' or 'remove'</p><p><a href='/'>Back to Home</a></p>''"
    by simp
  then have s: "sublist ''Invalid action'' ?page"
    unfolding sublist_def by blast
  have c: "filter is_api_call (calls st1) = filter is_api_call (calls st)"
    using get_spotify_client_api_calls [of env st] by (simp add: g)
  from m s c show ?thesis
    by (intro exI [of _ ?page]) (simp add: g)
qed

theorem modify_playlist_invalid_action_witness:
  "fst (get_spotify_client valid_env logged_in) = Inr (Some (Spotify (PStr ''AT1'')))
   \<and> ''delete'' \<noteq> ''add'' \<and> ''delete'' \<noteq> ''remove''
   \<and> (\<exists>page. modify_playlist valid_env ''PL1'' ''delete'' ''spotify:track:1'' logged_in =
           (Inr \<lparr>status = 200, body = Html page\<rparr>, snd (get_spotify_client valid_env logged_in))
         \<and> sublist ''Invalid action'' page)"
proof -
  have h: "fst (get_spotify_client valid_env logged_in) = Inr (Some (Spotify (PStr ''AT1'')))"
    by (simp add: get_spotify_client_def new_client_def session_get_token_info_def logged_in_def
        old_token_def valid_env_def failing_env_def)
  have a: "''delete'' \<noteq> ''add''" and r: "''delete'' \<noteq> ''remove''"
    by simp_all
  from modify_playlist_invalid_action [OF h a r, of "''PL1''" "''spotify:track:1''"] h a r
  show ?thesis by blast
qed

text \<open>
  Claim C10. When \<open>get_spotify_client\<close> returns a client and the current-user call
  raises a \<open>SpotifyException\<close>, whatever its message, \<^verbatim>\<open>/auth/status\<close> removes
  \<open>token_info\<close> from the session and answers with status 200 and the JSON body
  \<^verbatim>\<open>{"authenticated": false}\<close>.
\<close>

theorem auth_status_spotify_exception:
  assumes "get_spotify_client env st = (Inr (Some sp), st1)"
    and "current_user env sp = Inl (SpotifyException m)"
  shows "auth_status env st =
           (Inr \<lparr>status = 200, body = Json (PDict [(''authenticated'', PBool False)])\<rparr>,
            st1\<lparr>session := (session st1)\<lparr>token_info := None\<rparr>,
                calls := calls st1 @ [CurrentUser sp]\<rparr>)"
  using assms
  by (simp add: auth_status_def auth_status_body_def ebind_def not_authenticated_status_def
      jsonify_def record_call_def session_pop_token_info_def)

theorem auth_status_spotify_exception_witness:
  "get_spotify_client valid_env logged_in = (Inr (Some (Spotify (PStr ''AT1''))), logged_in)
   \<and> current_user valid_env (Spotify (PStr ''AT1'')) = Inl (SpotifyException ''rate limited'')
   \<and> auth_status valid_env logged_in =
       (Inr \<lparr>status = 200, body = Json (PDict [(''authenticated'', PBool False)])\<rparr>,
        \<lparr>session = \<lparr>token_info = None, permanent = True\<rparr>,
         calls = [CurrentUser (Spotify (PStr ''AT1''))]\<rparr>)"
proof -
  have g: "get_spotify_client valid_env logged_in = (Inr (Some (Spotify (PStr ''AT1''))), logged_in)"
    by (simp add: get_spotify_client_def new_client_def session_get_token_info_def logged_in_def
        old_token_def valid_env_def failing_env_def)
  have u: "current_user valid_env (Spotify (PStr ''AT1'')) = Inl (SpotifyException ''rate limited'')"
    by (simp add: valid_env_def failing_env_def)
  from auth_status_spotify_exception [OF g u] g u show ?thesis
    by (simp add: logged_in_def)
qed

end
